theory Spec2Isabelle
  imports Complex_Main
begin

text \<open>
  The program fetches the daily prices of three assets, computes the RSI, the MACD with
  its signal line and a simulated MVRV over the price column, plots them, and prints and
  mails a valuation report for the latest day, each asset inside its own \<open>try\<close>. This
  theory embeds the indicator functions over pandas Series, the report and the loop over
  the assets, and proves the properties claimed of them.
\<close>

section \<open>Float values of a pandas Series\<close>

text \<open>
  The columns of the program's DataFrame hold float64 values. A value is modelled as a
  finite number, one of the two infinities, or NaN (pandas' marker for a missing or
  undefined entry). Finite values are exact reals: rounding, overflow and the sign of
  zero are not modelled (a zero divisor counts as +0).
\<close>

datatype fl = Fin real | PInf | NInf | NaN

fun fl_neg :: "fl \<Rightarrow> fl" where
  "fl_neg (Fin x) = Fin (- x)"
| "fl_neg PInf = NInf"
| "fl_neg NInf = PInf"
| "fl_neg NaN = NaN"

fun fl_add :: "fl \<Rightarrow> fl \<Rightarrow> fl" where
  "fl_add NaN b = NaN"
| "fl_add a NaN = NaN"
| "fl_add (Fin x) (Fin y) = Fin (x + y)"
| "fl_add (Fin x) PInf = PInf"
| "fl_add (Fin x) NInf = NInf"
| "fl_add PInf (Fin y) = PInf"
| "fl_add NInf (Fin y) = NInf"
| "fl_add PInf PInf = PInf"
| "fl_add NInf NInf = NInf"
| "fl_add PInf NInf = NaN"
| "fl_add NInf PInf = NaN"

definition fl_sub :: "fl \<Rightarrow> fl \<Rightarrow> fl" where
  "fl_sub a b = fl_add a (fl_neg b)"

fun fl_mul :: "fl \<Rightarrow> fl \<Rightarrow> fl" where
  "fl_mul NaN b = NaN"
| "fl_mul a NaN = NaN"
| "fl_mul (Fin x) (Fin y) = Fin (x * y)"
| "fl_mul (Fin x) PInf = (if x = 0 then NaN else if 0 < x then PInf else NInf)"
| "fl_mul (Fin x) NInf = (if x = 0 then NaN else if 0 < x then NInf else PInf)"
| "fl_mul PInf (Fin y) = (if y = 0 then NaN else if 0 < y then PInf else NInf)"
| "fl_mul NInf (Fin y) = (if y = 0 then NaN else if 0 < y then NInf else PInf)"
| "fl_mul PInf PInf = PInf"
| "fl_mul NInf NInf = PInf"
| "fl_mul PInf NInf = NInf"
| "fl_mul NInf PInf = NInf"

text \<open>
  Division of float columns follows numpy: no exception is raised, a non-zero value
  over zero is an infinity, zero over zero is NaN.
\<close>

fun fl_div :: "fl \<Rightarrow> fl \<Rightarrow> fl" where
  "fl_div NaN b = NaN"
| "fl_div a NaN = NaN"
| "fl_div (Fin x) (Fin y) =
     (if y \<noteq> 0 then Fin (x / y)
      else if x = 0 then NaN
      else if 0 < x then PInf else NInf)"
| "fl_div (Fin x) PInf = Fin 0"
| "fl_div (Fin x) NInf = Fin 0"
| "fl_div PInf (Fin y) = (if 0 \<le> y then PInf else NInf)"
| "fl_div NInf (Fin y) = (if 0 \<le> y then NInf else PInf)"
| "fl_div PInf PInf = NaN"
| "fl_div PInf NInf = NaN"
| "fl_div NInf PInf = NaN"
| "fl_div NInf NInf = NaN"

text \<open>Comparisons with NaN are false.\<close>

fun fl_lt :: "fl \<Rightarrow> fl \<Rightarrow> bool" where
  "fl_lt NaN b = False"
| "fl_lt a NaN = False"
| "fl_lt (Fin x) (Fin y) = (x < y)"
| "fl_lt (Fin x) PInf = True"
| "fl_lt (Fin x) NInf = False"
| "fl_lt PInf b = False"
| "fl_lt NInf (Fin y) = True"
| "fl_lt NInf PInf = True"
| "fl_lt NInf NInf = False"

definition fl_gt :: "fl \<Rightarrow> fl \<Rightarrow> bool" where
  "fl_gt a b = fl_lt b a"

section \<open>Series operations used by the indicators\<close>

text \<open>\<open>Series.diff()\<close>: the first entry is NaN, entry \<open>i\<close> is \<open>x[i] - x[i-1]\<close>.\<close>

fun diff :: "fl list \<Rightarrow> fl list" where
  "diff [] = []"
| "diff (x # xs) = NaN # map2 (\<lambda>prev cur. fl_sub cur prev) (x # xs) xs"

text \<open>\<open>Series.clip(lower=l)\<close> and \<open>Series.clip(upper=u)\<close>; NaN stays NaN.\<close>

definition clip_lower :: "real \<Rightarrow> fl \<Rightarrow> fl" where
  "clip_lower l v = (if fl_lt v (Fin l) then Fin l else v)"

definition clip_upper :: "real \<Rightarrow> fl \<Rightarrow> fl" where
  "clip_upper u v = (if fl_gt v (Fin u) then Fin u else v)"

text \<open>
  \<open>Series.rolling(window=w).mean()\<close>: pandas first replaces the infinite entries of
  the series by NaN. The window of index \<open>i\<close> holds the entries \<open>max(0, i-w+1) .. i\<close>;
  \<open>min_periods\<close> defaults to \<open>w\<close>, so the mean of the non-missing entries is
  returned when there are at least \<open>w\<close> of them, NaN otherwise. The mean is the exact
  one: pandas keeps a running sum in float64, which rounds, and which overflow or
  underflow can turn into NaN or 0 on prices of extreme magnitude.
\<close>

fun prep :: "fl \<Rightarrow> fl" where
  "prep (Fin x) = Fin x"
| "prep PInf = NaN"
| "prep NInf = NaN"
| "prep NaN = NaN"

definition window_at :: "nat \<Rightarrow> nat \<Rightarrow> 'a list \<Rightarrow> 'a list" where
  "window_at w i xs = drop (Suc i - w) (take (Suc i) xs)"

definition fl_sum :: "fl list \<Rightarrow> fl" where
  "fl_sum vs = foldr fl_add vs (Fin 0)"

definition window_mean :: "nat \<Rightarrow> fl list \<Rightarrow> fl" where
  "window_mean minp win =
     (let obs = filter (\<lambda>v. v \<noteq> NaN) win; nobs = length obs
      in if minp \<le> nobs \<and> 0 < nobs then fl_div (fl_sum obs) (Fin (real nobs)) else NaN)"

definition rolling_mean :: "nat \<Rightarrow> fl list \<Rightarrow> fl list" where
  "rolling_mean w xs =
     (let values = map prep xs
      in map (\<lambda>i. window_mean w (window_at w i values)) [0..<length xs])"

text \<open>
  \<open>Series.ewm(span=s, adjust=False).mean()\<close> with \<open>\<alpha> = 2/(s+1)\<close>:
  \<open>y[0] = x[0]\<close> and \<open>y[t] = (1-\<alpha>) y[t-1] + \<alpha> x[t]\<close>. With a missing \<open>x[t]\<close> the
  previous average is repeated and the old weight decays by \<open>1-\<alpha>\<close> (pandas'
  \<open>ignore_na=False\<close>), the next observation being averaged with the weights
  \<open>old_wt\<close> and \<open>new_wt\<close>, normalised by their sum; \<open>new_wt\<close> is \<open>\<alpha>\<close>, except
  that for \<open>\<alpha> = 1/2\<close> (pandas' \<open>com = 1\<close>) it is \<open>1 - old_wt\<close>. pandas rejects a
  span below 1. The series are taken to hold finite values or NaN, as the program's do:
  an infinite entry is kept here, where pandas would count it as missing.
\<close>

datatype exn = IndexError | ValueError string | Error string

fun ewm_loop :: "real \<Rightarrow> fl \<Rightarrow> real \<Rightarrow> fl list \<Rightarrow> fl list" where
  "ewm_loop \<alpha> weighted old_wt [] = []"
| "ewm_loop \<alpha> weighted old_wt (cur # rest) =
     (if weighted \<noteq> NaN then
        (if cur \<noteq> NaN then
           (let w = old_wt * (1 - \<alpha>);
                new_wt = (if \<alpha> = 1 / 2 then 1 - w else \<alpha>);
                weighted' = fl_div (fl_add (fl_mul (Fin w) weighted) (fl_mul (Fin new_wt) cur))
                                   (Fin (w + new_wt))
            in weighted' # ewm_loop \<alpha> weighted' 1 rest)
         else weighted # ewm_loop \<alpha> weighted (old_wt * (1 - \<alpha>)) rest)
      else (if cur \<noteq> NaN then cur # ewm_loop \<alpha> cur old_wt rest
            else weighted # ewm_loop \<alpha> weighted old_wt rest))"

definition ewm_mean :: "nat \<Rightarrow> fl list \<Rightarrow> exn + fl list" where
  "ewm_mean spn xs =
     (if spn < 1 then Inl (ValueError ''span must satisfy: span >= 1'')
      else (case xs of
              [] \<Rightarrow> Inr []
            | x # rest \<Rightarrow> Inr (x # ewm_loop (2 / (real spn + 1)) x 1 rest)))"

section \<open>The indicators\<close>

definition calculate_rsi :: "fl list \<Rightarrow> nat \<Rightarrow> fl list" where
  "calculate_rsi prices window =
     (let delta = diff prices;
          gain = map (clip_lower 0) delta;
          loss = map fl_neg (map (clip_upper 0) delta);
          avg_gain = rolling_mean window gain;
          avg_loss = rolling_mean window loss;
          rs = map2 fl_div avg_gain avg_loss;
          rsi = map (\<lambda>r. fl_sub (Fin 100) (fl_div (Fin 100) (fl_add (Fin 1) r))) rs
      in rsi)"

definition calculate_macd :: "fl list \<Rightarrow> nat \<Rightarrow> nat \<Rightarrow> nat \<Rightarrow> exn + (fl list \<times> fl list)" where
  "calculate_macd prices short long signal =
     (case ewm_mean short prices of
        Inl e \<Rightarrow> Inl e
      | Inr ema_short \<Rightarrow>
          (case ewm_mean long prices of
             Inl e \<Rightarrow> Inl e
           | Inr ema_long \<Rightarrow>
               (let macd = map2 fl_sub ema_short ema_long
                in case ewm_mean signal macd of
                     Inl e \<Rightarrow> Inl e
                   | Inr signal_line \<Rightarrow> Inr (macd, signal_line))))"

definition simulate_mvrv :: "fl list \<Rightarrow> fl list" where
  "simulate_mvrv prices =
     (let realized_price = rolling_mean 30 prices;
          mvrv = map2 fl_div prices realized_price
      in mvrv)"

text \<open>
  The intermediate series of \<open>calculate_rsi\<close>, named as its local variables are, so
  that statements can refer to them.
\<close>

definition rsi_avg_gain :: "fl list \<Rightarrow> nat \<Rightarrow> fl list" where
  "rsi_avg_gain prices window = rolling_mean window (map (clip_lower 0) (diff prices))"

definition rsi_avg_loss :: "fl list \<Rightarrow> nat \<Rightarrow> fl list" where
  "rsi_avg_loss prices window =
     rolling_mean window (map fl_neg (map (clip_upper 0) (diff prices)))"

section \<open>Reporting\<close>

text \<open>
  Strings are byte strings: the non-ASCII characters of the program's literals are
  written as their UTF-8 bytes.
\<close>

definition chart_emoji :: string where
  "chart_emoji = [CHR 0xF0, CHR 0x9F, CHR 0x93, CHR 0x8A]"

definition arrow :: string where
  "arrow = [CHR 0xE2, CHR 0x86, CHR 0x92]"

definition warning_sign :: string where
  "warning_sign = [CHR 0xE2, CHR 0x9A, CHR 0xA0, CHR 0xEF, CHR 0xB8, CHR 0x8F]"

definition check_mark :: string where
  "check_mark = [CHR 0xE2, CHR 0x9C, CHR 0x85]"

definition newline :: string where
  "newline = [CHR 0x0A]"

definition digit_char :: "nat \<Rightarrow> char" where
  "digit_char d = ''0123456789'' ! (d mod 10)"

fun show_nat :: "nat \<Rightarrow> string" where
  "show_nat n = (if n < 10 then [digit_char n] else show_nat (n div 10) @ [digit_char (n mod 10)])"

declare show_nat.simps [simp del]

definition zero_pad :: "nat \<Rightarrow> string \<Rightarrow> string" where
  "zero_pad k s = replicate (k - length s) (CHR ''0'') @ s"

text \<open>
  The format \<open>.2f\<close>: two decimals, the exact value rounded half to even; the sign of a
  negative value is kept even when it rounds to zero; \<open>nan\<close> and \<open>inf\<close> for the
  non-finite values. Formatting a float never raises. A negative zero, which prints as
  \<open>-0.00\<close>, is not among the modelled values.
\<close>

definition round_half_even :: "real \<Rightarrow> int" where
  "round_half_even x =
     (let f = \<lfloor>x\<rfloor>; r = x - of_int f
      in if r < 1 / 2 then f else if 1 / 2 < r then f + 1 else if even f then f else f + 1)"

fun fmt2f :: "fl \<Rightarrow> string" where
  "fmt2f NaN = ''nan''"
| "fmt2f PInf = ''inf''"
| "fmt2f NInf = ''-inf''"
| "fmt2f (Fin x) =
     (let n = nat (round_half_even (\<bar>x\<bar> * 100))
      in (if x < 0 then ''-'' else []) @ show_nat (n div 100) @ ''.''
         @ [digit_char (n div 10 mod 10), digit_char (n mod 10)])"

record date =
  year :: nat
  month :: nat
  day :: nat

definition show_date :: "date \<Rightarrow> string" where
  "show_date d = zero_pad 4 (show_nat (year d)) @ ''-'' @ zero_pad 2 (show_nat (month d))
                 @ ''-'' @ zero_pad 2 (show_nat (day d))"

text \<open>A row of the DataFrame after the indicator columns have been added.\<close>

record row =
  Date :: date
  Price :: fl
  RSI :: fl
  MACD :: fl
  Signal :: fl
  MVRV :: fl

text \<open>The three classifications of \<open>generate_report\<close>, as its conditional expressions.\<close>

definition rsi_zone :: "fl \<Rightarrow> string" where
  "rsi_zone rsi = (if fl_lt rsi (Fin 30) then ''Oversold'' else ''Neutral/Bullish'')"

definition macd_trend :: "fl \<Rightarrow> fl \<Rightarrow> string" where
  "macd_trend macd signal = (if fl_gt macd signal then ''Bullish'' else ''Bearish'')"

definition mvrv_valuation :: "fl \<Rightarrow> string" where
  "mvrv_valuation mvrv = (if fl_lt mvrv (Fin 1) then ''Undervalued'' else ''Fairly Valued'')"

definition header_line :: "string \<Rightarrow> row \<Rightarrow> string" where
  "header_line asset latest =
     chart_emoji @ '' '' @ asset @ '' Valuation Report ('' @ show_date (Date latest) @ ''):''"

definition price_line :: "row \<Rightarrow> string" where
  "price_line latest = ''Price: $'' @ fmt2f (Price latest)"

definition rsi_line :: "row \<Rightarrow> string" where
  "rsi_line latest =
     ''RSI: '' @ fmt2f (RSI latest) @ '' '' @ arrow @ '' '' @ rsi_zone (RSI latest)"

definition macd_line :: "row \<Rightarrow> string" where
  "macd_line latest =
     ''MACD: '' @ fmt2f (MACD latest) @ '', Signal: '' @ fmt2f (Signal latest)
     @ '' '' @ arrow @ '' '' @ macd_trend (MACD latest) (Signal latest)"

definition mvrv_line :: "row \<Rightarrow> string" where
  "mvrv_line latest =
     ''MVRV: '' @ fmt2f (MVRV latest) @ '' '' @ arrow @ '' '' @ mvrv_valuation (MVRV latest)"

definition report_text :: "string \<Rightarrow> row \<Rightarrow> string" where
  "report_text asset latest =
     header_line asset latest @ newline @ price_line latest @ newline @ rsi_line latest
     @ newline @ macd_line latest @ newline @ mvrv_line latest"

section \<open>Effects and the per-asset loop\<close>

text \<open>
  What a run can observe and change: the console (one entry per \<open>print\<close>), the chart
  files written and the mails sent. The collaborators outside the program (the price
  providers behind \<open>assets[asset]()\<close>, matplotlib's file output, the SMTP server) are
  capabilities of the environment: each either raises an exception or succeeds. Only
  exceptions derived from \<open>Exception\<close> are modelled, which is what the program's
  \<open>except\<close> clauses catch. A fetched frame is the list of its (Date, Price) rows; a frame
  without a Price column (the gold provider answering without data) makes the first
  statement after the fetch raise, which is counted as the fetch raising.
\<close>

record world =
  console :: "string list"
  charts :: "string list"
  outbox :: "(string \<times> string) list"

record env =
  fetch_func :: "string \<Rightarrow> exn + (date \<times> fl) list"
  savefig :: "string \<Rightarrow> row list \<Rightarrow> exn option"
  sendmail :: "string \<Rightarrow> string \<Rightarrow> exn option"

fun exn_str :: "exn \<Rightarrow> string" where
  "exn_str IndexError = ''single positional indexer is out-of-bounds''"
| "exn_str (ValueError m) = m"
| "exn_str (Error m) = m"

definition print :: "string \<Rightarrow> world \<Rightarrow> world" where
  "print s w = w\<lparr>console := console w @ [s]\<rparr>"

definition send_alert :: "env \<Rightarrow> string \<Rightarrow> string \<Rightarrow> world \<Rightarrow> world" where
  "send_alert ev subject body w =
     (case sendmail ev subject body of
        None \<Rightarrow> print (check_mark @ '' Gmail alert sent.'')
                  (w\<lparr>outbox := outbox w @ [(subject, body)]\<rparr>)
      | Some e \<Rightarrow> print (warning_sign @ '' Gmail alert failed: '' @ exn_str e) w)"

text \<open>
  \<open>str.lower()\<close> on the bytes of an ASCII name, which the three configured names are;
  bytes outside \<open>A\<close> to \<open>Z\<close> are kept.
\<close>

definition to_lower :: "char \<Rightarrow> char" where
  "to_lower c =
     (let n = (of_char c :: nat) in if 65 \<le> n \<and> n \<le> 90 then char_of (n + 32) else c)"

definition plot_indicators :: "env \<Rightarrow> row list \<Rightarrow> string \<Rightarrow> world \<Rightarrow> exn option \<times> world" where
  "plot_indicators ev df asset w =
     (case savefig ev asset df of
        Some e \<Rightarrow> (Some e, w)
      | None \<Rightarrow> (None, w\<lparr>charts := charts w @ [map to_lower asset @ ''_chart.png'']\<rparr>))"

text \<open>\<open>df.iloc[-1]\<close> raises IndexError on a frame without rows.\<close>

definition generate_report :: "env \<Rightarrow> string \<Rightarrow> row list \<Rightarrow> world \<Rightarrow> exn option \<times> world" where
  "generate_report ev asset df w =
     (if df = [] then (Some IndexError, w)
      else (let latest = last df;
                report = report_text asset latest;
                w1 = print report w;
                w2 = send_alert ev (asset @ '' Daily Valuation'') report w1
            in (None, w2)))"

text \<open>
  Lines 137 to 139: the indicator columns are added to the fetched frame. On a frame
  without rows each indicator is an empty series, and the frame stays empty.
\<close>

definition with_indicators :: "(date \<times> fl) list \<Rightarrow> exn + row list" where
  "with_indicators df =
     (let price = map snd df;
          rsi = calculate_rsi price 14
      in case calculate_macd price 12 26 9 of
           Inl e \<Rightarrow> Inl e
         | Inr (macd, signal) \<Rightarrow>
             (let mvrv = simulate_mvrv price
              in Inr (map (\<lambda>i. \<lparr>Date = fst (df ! i), Price = price ! i, RSI = rsi ! i,
                                 MACD = macd ! i, Signal = signal ! i, MVRV = mvrv ! i\<rparr>)
                          [0..<length df])))"

text \<open>The body of the \<open>try\<close>: the first exception ends it, keeping the effects so far.\<close>

definition loop_body :: "env \<Rightarrow> string \<Rightarrow> world \<Rightarrow> exn option \<times> world" where
  "loop_body ev asset w =
     (case fetch_func ev asset of
        Inl e \<Rightarrow> (Some e, w)
      | Inr fetched \<Rightarrow>
          (case with_indicators fetched of
             Inl e \<Rightarrow> (Some e, w)
           | Inr df \<Rightarrow>
               (case plot_indicators ev df asset w of
                  (Some e, w1) \<Rightarrow> (Some e, w1)
                | (None, w1) \<Rightarrow> generate_report ev asset df w1)))"

definition error_line :: "string \<Rightarrow> exn \<Rightarrow> string" where
  "error_line asset e = warning_sign @ '' Error processing '' @ asset @ '': '' @ exn_str e"

definition process_asset :: "env \<Rightarrow> string \<Rightarrow> world \<Rightarrow> world" where
  "process_asset ev asset w =
     (case loop_body ev asset w of
        (None, w1) \<Rightarrow> w1
      | (Some e, w1) \<Rightarrow> print (error_line asset e) w1)"

fun main_loop :: "env \<Rightarrow> string list \<Rightarrow> world \<Rightarrow> world" where
  "main_loop ev [] w = w"
| "main_loop ev (asset # rest) w = main_loop ev rest (process_asset ev asset w)"

definition assets :: "string list" where
  "assets = [''Gold'', ''Bitcoin'', ''Ethereum'']"

definition empty_world :: world where
  "empty_world = \<lparr>console = [], charts = [], outbox = []\<rparr>"

definition main :: "env \<Rightarrow> world" where
  "main ev = main_loop ev assets empty_world"

section \<open>Auxiliary notions for the proofs\<close>

text \<open>The price differences, gains, losses and window means of a series of finite prices.\<close>

definition deltas :: "real list \<Rightarrow> real list" where
  "deltas xs = map2 (\<lambda>prev cur. cur - prev) xs (tl xs)"

definition gain_of :: "real \<Rightarrow> real" where
  "gain_of d = max d 0"

definition loss_of :: "real \<Rightarrow> real" where
  "loss_of d = max (- d) 0"

definition mean :: "real list \<Rightarrow> real" where
  "mean rs = sum_list rs / real (length rs)"

definition rsi_of :: "real \<Rightarrow> real \<Rightarrow> fl" where
  "rsi_of g l = fl_sub (Fin 100) (fl_div (Fin 100) (fl_add (Fin 1) (fl_div (Fin g) (Fin l))))"

text \<open>The recurrence \<open>y[t] = \<alpha> x[t] + (1-\<alpha>) y[t-1]\<close> on finite values.\<close>

fun ema_from :: "real \<Rightarrow> real \<Rightarrow> real list \<Rightarrow> real list" where
  "ema_from \<alpha> y [] = []"
| "ema_from \<alpha> y (x # xs) = (\<alpha> * x + (1 - \<alpha>) * y) # ema_from \<alpha> (\<alpha> * x + (1 - \<alpha>) * y) xs"

section \<open>Prices on a binary grid\<close>

text \<open>
  Positive prices that are whole multiples of \<open>2^-k\<close>, fewer than \<open>2^40\<close> steps
  each. For \<open>k\<close> up to 40 float64 holds such prices, their differences and the sums of
  14 or 30 of them exactly, without rounding, overflow or underflow, so the exact window
  means of this theory are zero, or positive, exactly when the program's are.
\<close>

definition on_grid :: "nat \<Rightarrow> real list \<Rightarrow> bool" where
  "on_grid k xs = (\<forall>x\<in>set xs. 0 < x \<and> x * 2 ^ k < 2 ^ 40 \<and> of_int \<lfloor>x * 2 ^ k\<rfloor> = x * 2 ^ k)"

section \<open>Sample inputs\<close>

definition sample_prices :: "real list" where
  "sample_prices =
     [100, 102, 101, 105, 103, 106, 108, 107, 110, 109, 111, 115, 113, 116, 118,
      117, 120, 119, 122, 125, 123, 126, 128, 127, 130, 129, 131, 135, 133, 136]"

definition quarter_prices :: "real list" where
  "quarter_prices = [100.25, 100.5, 99.75]"

definition rising15 :: "fl list" where
  "rising15 = map Fin [1, 2, 3, 4, 5, 6, 7, 8, 9, 10, 11, 12, 13, 14, 15]"

definition const15 :: "fl list" where
  "const15 = replicate 15 (Fin 100)"

definition sample_date :: date where
  "sample_date = \<lparr>year = 2024, month = 1, day = 15\<rparr>"

definition one_day_frame :: "(date \<times> fl) list" where
  "one_day_frame = [(sample_date, Fin 100)]"

definition one_day_row :: row where
  "one_day_row = \<lparr>Date = sample_date, Price = Fin 100, RSI = NaN, MACD = Fin 0,
                    Signal = Fin 0, MVRV = NaN\<rparr>"

definition one_day_report :: string where
  "one_day_report =
     chart_emoji @ '' Gold Valuation Report (2024-01-15):'' @ newline
     @ ''Price: $100.00'' @ newline
     @ ''RSI: nan '' @ arrow @ '' Neutral/Bullish'' @ newline
     @ ''MACD: 0.00, Signal: 0.00 '' @ arrow @ '' Bearish'' @ newline
     @ ''MVRV: nan '' @ arrow @ '' Fairly Valued''"

definition quiet_env :: env where
  "quiet_env = \<lparr>fetch_func = (\<lambda>asset. Inr one_day_frame),
                 savefig = (\<lambda>asset df. None),
                 sendmail = (\<lambda>subject body. None)\<rparr>"

definition gold_down_env :: env where
  "gold_down_env =
     \<lparr>fetch_func = (\<lambda>asset. if asset = ''Gold'' then Inl (Error ''connection refused'')
                              else Inr one_day_frame),
      savefig = (\<lambda>asset df. None),
      sendmail = (\<lambda>subject body. None)\<rparr>"

section \<open>Lengths\<close>

lemma length_diff [simp]: "length (diff xs) = length xs"
  by (cases xs) simp_all

lemma length_rolling_mean [simp]: "length (rolling_mean w xs) = length xs"
  by (simp add: rolling_mean_def Let_def)

lemma length_ewm_loop [simp]: "length (ewm_loop \<alpha> y w xs) = length xs"
  by (induction xs arbitrary: y w) (simp_all add: Let_def)

lemma length_calculate_rsi [simp]: "length (calculate_rsi xs w) = length xs"
  by (simp add: calculate_rsi_def Let_def)

lemma length_simulate_mvrv [simp]: "length (simulate_mvrv xs) = length xs"
  by (simp add: simulate_mvrv_def Let_def)

lemma ewm_mean_Inr:
  "1 \<le> spn \<Longrightarrow> \<exists>ys. ewm_mean spn xs = Inr ys \<and> length ys = length xs"
  by (cases xs) (simp_all add: ewm_mean_def)

lemma calculate_macd_Inr:
  assumes "1 \<le> short" "1 \<le> long" "1 \<le> signal"
  shows "\<exists>macd signal_line. calculate_macd prices short long signal = Inr (macd, signal_line)
           \<and> length macd = length prices \<and> length signal_line = length prices"
proof -
  obtain es where es: "ewm_mean short prices = Inr es" "length es = length prices"
    using ewm_mean_Inr [OF assms(1)] by blast
  obtain el where el: "ewm_mean long prices = Inr el" "length el = length prices"
    using ewm_mean_Inr [OF assms(2)] by blast
  obtain sl where sl: "ewm_mean signal (map2 fl_sub es el) = Inr sl"
      "length sl = length (map2 fl_sub es el)"
    using ewm_mean_Inr [OF assms(3)] by blast
  show ?thesis
    using es el sl by (simp add: calculate_macd_def)
qed

section \<open>Rolling windows\<close>

lemma fl_sum_Fin: "fl_sum (map Fin rs) = Fin (sum_list rs)"
  by (induction rs) (simp_all add: fl_sum_def)

lemma filter_notNaN_Fin: "filter (\<lambda>v. v \<noteq> NaN) (map Fin rs) = map Fin rs"
  by (induction rs) simp_all

lemma window_mean_Fin:
  "window_mean w (map Fin rs) =
     (if w \<le> length rs \<and> rs \<noteq> [] then Fin (sum_list rs / real (length rs)) else NaN)"
  by (auto simp: window_mean_def Let_def filter_notNaN_Fin fl_sum_Fin)

lemma window_mean_short: "length win < w \<Longrightarrow> window_mean w win = NaN"
proof -
  assume short: "length win < w"
  have "length (filter (\<lambda>v. v \<noteq> NaN) win) \<le> length win"
    by (rule length_filter_le)
  with short have "\<not> w \<le> length (filter (\<lambda>v. v \<noteq> NaN) win)"
    by linarith
  then show ?thesis by (simp add: window_mean_def Let_def)
qed

lemma window_at_map: "window_at w i (map f xs) = map f (window_at w i xs)"
  by (simp add: window_at_def take_map drop_map)

lemma length_window_at: "i < length xs \<Longrightarrow> length (window_at w i xs) = min w (Suc i)"
  by (auto simp: window_at_def)

lemma prep_o_Fin [simp]: "prep \<circ> Fin = Fin"
  by (rule ext) simp

lemma map_prep_Fin [simp]: "map prep (map Fin rs) = map Fin rs"
  by simp

lemma rolling_mean_nth:
  "i < length xs \<Longrightarrow> rolling_mean w xs ! i = window_mean w (window_at w i (map prep xs))"
  by (simp add: rolling_mean_def Let_def)

lemma rolling_mean_early:
  "i < length xs \<Longrightarrow> Suc i < w \<Longrightarrow> rolling_mean w xs ! i = NaN"
  by (simp add: rolling_mean_nth window_mean_short length_window_at)

lemma window_at_NaN_Cons_late:
  "w \<le> i \<Longrightarrow> window_at w i (NaN # ys) = window_at w (i - 1) ys"
  by (cases i) (simp_all add: window_at_def Suc_diff_le)

lemma window_mean_NaN_Cons_early:
  assumes "i < w"
  shows "window_mean w (window_at w i (NaN # ys)) = NaN"
proof -
  have "window_at w i (NaN # ys) = NaN # take i ys"
    using assms by (simp add: window_at_def)
  moreover have "length (filter (\<lambda>v. v \<noteq> NaN) (take i ys)) \<le> length (take i ys)"
    by (rule length_filter_le)
  then have "\<not> w \<le> length (filter (\<lambda>v. v \<noteq> NaN) (take i ys))"
    using assms by simp
  ultimately show ?thesis by (simp add: window_mean_def Let_def)
qed

section \<open>The RSI of a series of finite prices\<close>

lemma length_deltas [simp]: "length (deltas xs) = length xs - 1"
  by (simp add: deltas_def)

lemma map2_sub_Fin:
  "map2 (\<lambda>prev cur. fl_sub cur prev) (map Fin as) (map Fin bs)
     = map Fin (map2 (\<lambda>prev cur. cur - prev) as bs)"
proof (induction as arbitrary: bs)
  case Nil
  then show ?case by simp
next
  case (Cons a as)
  then show ?case by (cases bs) (simp_all add: fl_sub_def)
qed

lemma diff_Fin: "xs \<noteq> [] \<Longrightarrow> diff (map Fin xs) = NaN # map Fin (deltas xs)"
proof (cases xs)
  case Nil
  assume "xs \<noteq> []"
  with Nil show ?thesis by simp
next
  case (Cons x rest)
  have "diff (map Fin xs) = NaN # map2 (\<lambda>prev cur. fl_sub cur prev) (map Fin (x # rest)) (map Fin rest)"
    using Cons by simp
  then show ?thesis
    using Cons by (simp only: map2_sub_Fin deltas_def list.sel)
qed

lemma clip_lower_Fin: "clip_lower 0 (Fin d) = Fin (gain_of d)"
  by (simp add: clip_lower_def gain_of_def max_def)

lemma neg_clip_upper_Fin: "fl_neg (clip_upper 0 (Fin d)) = Fin (loss_of d)"
  by (simp add: clip_upper_def loss_of_def max_def fl_gt_def)

lemma gain_series:
  "map (clip_lower 0) (NaN # map Fin ds) = NaN # map Fin (map gain_of ds)"
  by (simp add: clip_lower_Fin) (simp add: clip_lower_def)

lemma loss_series:
  "map fl_neg (map (clip_upper 0) (NaN # map Fin ds)) = NaN # map Fin (map loss_of ds)"
  by (simp add: neg_clip_upper_Fin) (simp add: clip_upper_def fl_gt_def)

lemma rolling_mean_NaN_Cons_nth:
  assumes "i < Suc (length rs)"
  shows "rolling_mean w (NaN # map Fin rs) ! i =
           (if i < w \<or> w = 0 then NaN else Fin (mean (window_at w (i - 1) rs)))"
proof (cases "i < w")
  case True
  then show ?thesis
    using assms by (simp add: rolling_mean_nth window_mean_NaN_Cons_early)
next
  case False
  then have late: "w \<le> i" by simp
  have nth: "rolling_mean w (NaN # map Fin rs) ! i
               = window_mean w (map Fin (window_at w (i - 1) rs))"
    using assms late by (simp add: rolling_mean_nth window_at_NaN_Cons_late window_at_map)
  show ?thesis
  proof (cases "w = 0")
    case True
    then show ?thesis
      using nth by (simp add: window_mean_def window_at_def)
  next
    case w: False
    with late assms have "i - 1 < length rs" by simp
    then have "length (window_at w (i - 1) rs) = min w (Suc (i - 1))"
      by (rule length_window_at)
    with late w have len: "length (window_at w (i - 1) rs) = w" by simp
    with w have "window_at w (i - 1) rs \<noteq> []" by auto
    then show ?thesis
      using nth len w False by (simp add: window_mean_Fin mean_def)
  qed
qed

lemma calculate_rsi_nth:
  assumes "i < length xs"
  shows "calculate_rsi (map Fin xs) w ! i =
           (if i < w \<or> w = 0 then NaN
            else rsi_of (mean (map gain_of (window_at w (i - 1) (deltas xs))))
                        (mean (map loss_of (window_at w (i - 1) (deltas xs)))))"
proof -
  from assms have ne: "xs \<noteq> []" by auto
  have i: "i < Suc (length (deltas xs))" using assms by simp
  have g: "rolling_mean w (NaN # map Fin (map gain_of (deltas xs))) ! i =
      (if i < w \<or> w = 0 then NaN else Fin (mean (window_at w (i - 1) (map gain_of (deltas xs)))))"
    using rolling_mean_NaN_Cons_nth [of i "map gain_of (deltas xs)" w] i by simp
  have l: "rolling_mean w (NaN # map Fin (map loss_of (deltas xs))) ! i =
      (if i < w \<or> w = 0 then NaN else Fin (mean (window_at w (i - 1) (map loss_of (deltas xs)))))"
    using rolling_mean_NaN_Cons_nth [of i "map loss_of (deltas xs)" w] i by simp
  have "calculate_rsi (map Fin xs) w =
          map (\<lambda>r. fl_sub (Fin 100) (fl_div (Fin 100) (fl_add (Fin 1) r)))
            (map2 fl_div (rolling_mean w (NaN # map Fin (map gain_of (deltas xs))))
                         (rolling_mean w (NaN # map Fin (map loss_of (deltas xs)))))"
    unfolding calculate_rsi_def Let_def diff_Fin [OF ne] gain_series loss_series ..
  then show ?thesis
    using assms g l by (auto simp: window_at_map rsi_of_def fl_sub_def)
qed


lemma rsi_of_pos_loss:
  "0 \<le> g \<Longrightarrow> 0 < l \<Longrightarrow> rsi_of g l = Fin (100 - 100 / (1 + g / l))"
proof -
  assume g: "0 \<le> g" and l: "0 < l"
  then have "0 \<le> g / l" by simp
  then have "1 + g / l \<noteq> 0" by linarith
  with l show ?thesis by (simp add: rsi_of_def fl_sub_def)
qed

lemma rsi_of_zero_loss: "0 < g \<Longrightarrow> rsi_of g 0 = Fin 100"
  by (simp add: rsi_of_def fl_sub_def)

lemma rsi_of_zero_zero: "rsi_of 0 0 = NaN"
  by (simp add: rsi_of_def fl_sub_def)

lemma rsi_of_bounds:
  assumes "0 \<le> g" "0 \<le> l" "rsi_of g l \<noteq> NaN"
  shows "\<exists>r. rsi_of g l = Fin r \<and> 0 \<le> r \<and> r \<le> 100"
proof (cases "0 < l")
  case True
  have q: "0 \<le> g / l" using assms(1) True by simp
  then have pos: "0 < 1 + g / l" by linarith
  have "100 / (1 + g / l) \<le> 100 / 1"
    using q by (intro divide_left_mono) simp_all
  moreover have "0 \<le> 100 / (1 + g / l)" using pos by simp
  ultimately show ?thesis
    using rsi_of_pos_loss [OF assms(1) True] by simp
next
  case False
  with assms(2) have l0: "l = 0" by simp
  with assms(3) rsi_of_zero_zero have "g \<noteq> 0" by auto
  with assms(1) have "0 < g" by simp
  then show ?thesis using l0 rsi_of_zero_loss by simp
qed

lemma rsi_of_NaN_iff:
  assumes "0 \<le> g" "0 \<le> l"
  shows "rsi_of g l = NaN \<longleftrightarrow> g = 0 \<and> l = 0"
proof (cases "0 < l")
  case True
  then show ?thesis using rsi_of_pos_loss [OF assms(1) True] by simp
next
  case False
  with assms(2) have l0: "l = 0" by simp
  show ?thesis
  proof (cases "g = 0")
    case True
    then show ?thesis using l0 rsi_of_zero_zero by simp
  next
    case False
    with assms(1) have "0 < g" by simp
    then show ?thesis using l0 rsi_of_zero_loss [of g] by simp
  qed
qed

lemma mean_nonneg: "(\<And>r. r \<in> set rs \<Longrightarrow> 0 \<le> r) \<Longrightarrow> 0 \<le> mean rs"
  by (simp add: mean_def sum_list_nonneg)

lemma mean_gain_nonneg: "0 \<le> mean (map gain_of ds)"
  by (rule mean_nonneg) (auto simp: gain_of_def)

lemma mean_loss_nonneg: "0 \<le> mean (map loss_of ds)"
  by (rule mean_nonneg) (auto simp: loss_of_def)

section \<open>The averages inside the RSI\<close>

lemma calculate_rsi_via_avgs:
  "calculate_rsi prices w =
     map (\<lambda>r. fl_sub (Fin 100) (fl_div (Fin 100) (fl_add (Fin 1) r)))
         (map2 fl_div (rsi_avg_gain prices w) (rsi_avg_loss prices w))"
  by (simp add: calculate_rsi_def rsi_avg_gain_def rsi_avg_loss_def Let_def)

lemma length_rsi_avg [simp]:
  "length (rsi_avg_gain prices w) = length prices" "length (rsi_avg_loss prices w) = length prices"
  by (simp_all add: rsi_avg_gain_def rsi_avg_loss_def)

section \<open>Rolling means and exponential averages of finite prices\<close>

lemma rolling_mean_Fin_nth:
  assumes "i < length xs"
  shows "rolling_mean w (map Fin xs) ! i =
           (if Suc i < w \<or> w = 0 then NaN else Fin (mean (window_at w i xs)))"
proof -
  have len: "length (window_at w i xs) = min w (Suc i)"
    using assms by (rule length_window_at)
  have "rolling_mean w (map Fin xs) ! i = window_mean w (map Fin (window_at w i xs))"
    using assms by (simp add: rolling_mean_nth window_at_map)
  also have "\<dots> = (if Suc i < w \<or> w = 0 then NaN else Fin (mean (window_at w i xs)))"
  proof -
    have "(length (window_at w i xs) = 0) = (w = 0)" using len by (auto simp: min_def)
    then have e: "(window_at w i xs = []) = (w = 0)" by simp
    have c: "(w \<le> length (window_at w i xs)) = (\<not> Suc i < w)" using len by auto
    show ?thesis
      unfolding window_mean_Fin mean_def e c by simp
  qed
  finally show ?thesis .
qed

lemma simulate_mvrv_nth:
  assumes "i < length xs"
  shows "simulate_mvrv (map Fin xs) ! i =
           (if Suc i < 30 then NaN else fl_div (Fin (xs ! i)) (Fin (mean (window_at 30 i xs))))"
  using assms rolling_mean_Fin_nth [OF assms, of 30]
  by (simp add: simulate_mvrv_def Let_def)

lemma mean_pos:
  assumes "rs \<noteq> []" "\<And>r. r \<in> set rs \<Longrightarrow> 0 < r"
  shows "0 < mean rs"
proof -
  have "0 < sum_list rs"
    using assms by (induction rs) (auto intro: add_pos_nonneg sum_list_nonneg less_imp_le)
  with assms(1) show ?thesis by (simp add: mean_def)
qed

lemma set_window_at_subset: "set (window_at w i xs) \<subseteq> set xs"
  unfolding window_at_def by (meson set_drop_subset set_take_subset subset_trans)

lemma mvrv_defined_iff:
  assumes "\<forall>x\<in>set xs. 0 < x" "i < length xs"
  shows "simulate_mvrv (map Fin xs) ! i =
           (if Suc i < 30 then NaN else Fin (xs ! i / mean (window_at 30 i xs)))"
proof (cases "Suc i < 30")
  case True
  then show ?thesis using simulate_mvrv_nth [OF assms(2)] by simp
next
  case False
  have "length (window_at 30 i xs) = min 30 (Suc i)"
    using assms(2) by (rule length_window_at)
  with False have ne: "window_at 30 i xs \<noteq> []" by auto
  have "0 < mean (window_at 30 i xs)"
    using ne assms(1) set_window_at_subset [of 30 i xs] by (intro mean_pos) auto
  then show ?thesis using False simulate_mvrv_nth [OF assms(2)] by simp
qed

lemma ewm_loop_Fin:
  "ewm_loop \<alpha> (Fin y) 1 (map Fin xs) = map Fin (ema_from \<alpha> y xs)"
  by (induction xs arbitrary: y) (simp_all add: Let_def algebra_simps)

lemma ewm_mean_Fin:
  "1 \<le> spn \<Longrightarrow> ewm_mean spn (map Fin (x # xs)) = Inr (map Fin (x # ema_from (2 / (real spn + 1)) x xs))"
  by (simp add: ewm_mean_def ewm_loop_Fin)

section \<open>Flat windows\<close>

lemma mean_zero_iff:
  assumes "rs \<noteq> []" "\<And>r. r \<in> set rs \<Longrightarrow> 0 \<le> r"
  shows "mean rs = 0 \<longleftrightarrow> (\<forall>r\<in>set rs. r = 0)"
proof -
  have "sum_list rs = 0 \<longleftrightarrow> (\<forall>r\<in>set rs. r = 0)"
    using assms(2) by (rule sum_list_nonneg_eq_0_iff)
  with assms(1) show ?thesis by (simp add: mean_def)
qed

lemma gain_loss_zero_iff: "gain_of d = 0 \<and> loss_of d = 0 \<longleftrightarrow> d = 0"
  by (auto simp: gain_of_def loss_of_def max_def)

lemma flat_window_iff:
  assumes "win \<noteq> []"
  shows "mean (map gain_of win) = 0 \<and> mean (map loss_of win) = 0 \<longleftrightarrow> (\<forall>d\<in>set win. d = 0)"
proof -
  have gn: "\<And>r. r \<in> set (map gain_of win) \<Longrightarrow> 0 \<le> r" by (auto simp: gain_of_def)
  have ln: "\<And>r. r \<in> set (map loss_of win) \<Longrightarrow> 0 \<le> r" by (auto simp: loss_of_def)
  from assms have ne: "map gain_of win \<noteq> []" "map loss_of win \<noteq> []" by simp_all
  have g: "mean (map gain_of win) = 0 \<longleftrightarrow> (\<forall>d\<in>set win. gain_of d = 0)"
    using mean_zero_iff [OF ne(1) gn] by simp
  have l: "mean (map loss_of win) = 0 \<longleftrightarrow> (\<forall>d\<in>set win. loss_of d = 0)"
    using mean_zero_iff [OF ne(2) ln] by simp
  show ?thesis
    unfolding g l using gain_loss_zero_iff by blast
qed

lemma window_at_nth:
  assumes "k < length ds" "m < length (window_at w k ds)"
  shows "window_at w k ds ! m = ds ! (Suc k - w + m)"
  using assms by (simp add: window_at_def)

lemma set_window_at:
  assumes "k < length ds"
  shows "set (window_at w k ds) = {ds ! j | j. Suc k - w \<le> j \<and> j \<le> k}"
proof (intro set_eqI iffI)
  have len: "length (window_at w k ds) = Suc k - (Suc k - w)"
    using assms by (simp add: window_at_def)
  {
    fix x assume "x \<in> set (window_at w k ds)"
    then obtain m where m: "m < length (window_at w k ds)" "window_at w k ds ! m = x"
      by (auto simp: in_set_conv_nth)
    have "x = ds ! (Suc k - w + m)"
      using window_at_nth [OF assms m(1)] m(2) by simp
    moreover have "Suc k - w + m \<le> k" using m(1) len by linarith
    ultimately show "x \<in> {ds ! j | j. Suc k - w \<le> j \<and> j \<le> k}" by auto
  }
  {
    fix x assume "x \<in> {ds ! j | j. Suc k - w \<le> j \<and> j \<le> k}"
    then obtain j where j: "x = ds ! j" "Suc k - w \<le> j" "j \<le> k" by auto
    let ?m = "j - (Suc k - w)"
    have m: "?m < length (window_at w k ds)" using j len by linarith
    have "window_at w k ds ! ?m = ds ! (Suc k - w + ?m)"
      using window_at_nth [OF assms m] .
    with j have "window_at w k ds ! ?m = x" by simp
    with m show "x \<in> set (window_at w k ds)" by (auto simp: in_set_conv_nth)
  }
qed

lemma deltas_nth: "Suc j < length xs \<Longrightarrow> deltas xs ! j = xs ! Suc j - xs ! j"
  by (simp add: deltas_def nth_tl)

lemma rsi_NaN_iff:
  assumes "i < length xs" "0 < w"
  shows "calculate_rsi (map Fin xs) w ! i = NaN \<longleftrightarrow>
           (i < w \<or> (\<forall>j. i - w \<le> j \<and> j < i \<longrightarrow> xs ! Suc j = xs ! j))"
proof (cases "i < w")
  case True
  then show ?thesis using calculate_rsi_nth [OF assms(1), of w] by simp
next
  case False
  let ?win = "window_at w (i - 1) (deltas xs)"
  from False assms have k: "i - 1 < length (deltas xs)" by simp
  then have "length ?win = min w (Suc (i - 1))" by (rule length_window_at)
  with False assms(2) have ne: "?win \<noteq> []" by auto
  have "calculate_rsi (map Fin xs) w ! i = rsi_of (mean (map gain_of ?win)) (mean (map loss_of ?win))"
    using calculate_rsi_nth [OF assms(1), of w] False assms(2) by simp
  then have "calculate_rsi (map Fin xs) w ! i = NaN \<longleftrightarrow>
       mean (map gain_of ?win) = 0 \<and> mean (map loss_of ?win) = 0"
    using rsi_of_NaN_iff [OF mean_gain_nonneg mean_loss_nonneg] by simp
  also have "\<dots> \<longleftrightarrow> (\<forall>d\<in>set ?win. d = 0)"
    using ne by (rule flat_window_iff)
  also have "\<dots> \<longleftrightarrow> (\<forall>j. Suc (i - 1) - w \<le> j \<and> j \<le> i - 1 \<longrightarrow> deltas xs ! j = 0)"
    unfolding set_window_at [OF k] by blast
  also have "\<dots> \<longleftrightarrow> (\<forall>j. i - w \<le> j \<and> j < i \<longrightarrow> xs ! Suc j = xs ! j)"
  proof -
    have "\<And>j. j < i \<Longrightarrow> deltas xs ! j = 0 \<longleftrightarrow> xs ! Suc j = xs ! j"
      using assms(1) by (simp add: deltas_nth)
    moreover have "\<And>j. (Suc (i - 1) - w \<le> j \<and> j \<le> i - 1) = (i - w \<le> j \<and> j < i)"
      using False assms(2) by auto
    ultimately show ?thesis by auto
  qed
  finally show ?thesis using False by simp
qed

section \<open>MACD of finite prices, constant series\<close>

lemma map2_fl_sub_Fin:
  "map2 fl_sub (map Fin as) (map Fin bs) = map Fin (map2 (-) as bs)"
proof (induction as arbitrary: bs)
  case Nil
  then show ?case by simp
next
  case (Cons a as)
  then show ?case by (cases bs) (simp_all add: fl_sub_def)
qed

lemma length_ema_from [simp]: "length (ema_from \<alpha> y xs) = length xs"
  by (induction xs arbitrary: y) simp_all

lemma ewm_mean_all_Fin:
  assumes "1 \<le> spn"
  shows "\<exists>ys. ewm_mean spn (map Fin xs) = Inr (map Fin ys) \<and> length ys = length xs"
proof (cases xs)
  case Nil
  then show ?thesis using assms by (simp add: ewm_mean_def)
next
  case (Cons x rest)
  have "length (x # ema_from (2 / (real spn + 1)) x rest) = length xs"
    using Cons by simp
  then show ?thesis using Cons ewm_mean_Fin [OF assms, of x rest] by blast
qed

lemma calculate_macd_all_Fin:
  "\<exists>ms ss. calculate_macd (map Fin xs) 12 26 9 = Inr (map Fin ms, map Fin ss)
      \<and> length ms = length xs \<and> length ss = length xs"
proof -
  obtain es where es: "ewm_mean 12 (map Fin xs) = Inr (map Fin es)" "length es = length xs"
    using ewm_mean_all_Fin [of 12 xs] by auto
  obtain el where el: "ewm_mean 26 (map Fin xs) = Inr (map Fin el)" "length el = length xs"
    using ewm_mean_all_Fin [of 26 xs] by auto
  define md where "md = map2 fl_sub (map Fin es) (map Fin el)"
  have md_fin: "md = map Fin (map2 (-) es el)"
    unfolding md_def by (rule map2_fl_sub_Fin)
  obtain ss where ss: "ewm_mean 9 md = Inr (map Fin ss)"
      "length ss = length (map2 (-) es el)"
    using ewm_mean_all_Fin [of 9 "map2 (-) es el"] md_fin by auto
  have "calculate_macd (map Fin xs) 12 26 9 =
          (let macd = md
           in case ewm_mean 9 macd of Inl e \<Rightarrow> Inl e | Inr signal_line \<Rightarrow> Inr (macd, signal_line))"
    unfolding calculate_macd_def md_def es(1) el(1) by (simp only: sum.case)
  moreover have "ewm_mean 9 (map Fin (map2 (-) es el)) = Inr (map Fin ss)"
    using ss(1) unfolding md_fin .
  ultimately have "calculate_macd (map Fin xs) 12 26 9 = Inr (map Fin (map2 (-) es el), map Fin ss)"
    by (simp only: Let_def sum.case md_fin)
  moreover have "length (map2 (-) es el) = length xs" using es(2) el(2) by simp
  ultimately show ?thesis using ss(2) by metis
qed

lemma window_at_replicate:
  assumes "i < n"
  shows "window_at w i (replicate n c) = replicate (min w (Suc i)) c"
proof -
  have "min (Suc i) n - (Suc i - w) = min w (Suc i)" using assms by auto
  then show ?thesis by (simp only: window_at_def take_replicate drop_replicate)
qed

lemma mean_replicate: "0 < k \<Longrightarrow> mean (replicate k c) = c"
  by (simp add: mean_def sum_list_replicate)

lemma ema_from_const: "ema_from \<alpha> c (replicate k c) = replicate k c"
  by (induction k) (simp_all add: algebra_simps)

lemma ewm_mean_const:
  "1 \<le> spn \<Longrightarrow> ewm_mean spn (replicate n (Fin c)) = Inr (replicate n (Fin c))"
proof (cases n)
  case 0
  assume "1 \<le> spn"
  with 0 show ?thesis by (simp add: ewm_mean_def)
next
  case (Suc k)
  assume s: "1 \<le> spn"
  have "ewm_mean spn (map Fin (c # replicate k c)) = Inr (map Fin (c # replicate k c))"
    unfolding ewm_mean_Fin [OF s] ema_from_const ..
  with Suc show ?thesis by simp
qed

section \<open>The per-asset loop\<close>

lemma console_print [simp]: "console (print s w) = console w @ [s]"
  by (simp add: print_def)

lemma console_send_alert: "\<exists>l. console (send_alert ev subject body w) = console w @ [l]"
  by (simp add: send_alert_def split: option.split)

lemma generate_report_empty: "generate_report ev asset [] w = (Some IndexError, w)"
  by (simp add: generate_report_def)

lemma generate_report_rows:
  assumes "df \<noteq> []"
  shows "fst (generate_report ev asset df w) = None"
    and "\<exists>l. console (snd (generate_report ev asset df w))
               = console w @ [report_text asset (last df), l]"
proof -
  show "fst (generate_report ev asset df w) = None"
    using assms by (simp add: generate_report_def Let_def)
  obtain l where "console (send_alert ev (asset @ '' Daily Valuation'') (report_text asset (last df))
                    (print (report_text asset (last df)) w))
                  = console (print (report_text asset (last df)) w) @ [l]"
    using console_send_alert by blast
  then show "\<exists>l. console (snd (generate_report ev asset df w))
               = console w @ [report_text asset (last df), l]"
    using assms by (simp add: generate_report_def Let_def)
qed

lemma console_plot_indicators [simp]:
  "console (snd (plot_indicators ev df asset w)) = console w"
  by (simp add: plot_indicators_def split: option.split)

lemma fst_plot_indicators [simp]:
  "fst (plot_indicators ev df asset w) = savefig ev asset df"
  by (simp add: plot_indicators_def split: option.split)

lemma fst_generate_report:
  "fst (generate_report ev asset df w) = (if df = [] then Some IndexError else None)"
  by (simp add: generate_report_def Let_def)

lemma fst_loop_body:
  "fst (loop_body ev asset w) =
     (case fetch_func ev asset of
        Inl e \<Rightarrow> Some e
      | Inr fetched \<Rightarrow>
          (case with_indicators fetched of
             Inl e \<Rightarrow> Some e
           | Inr df \<Rightarrow>
               (case savefig ev asset df of
                  Some e \<Rightarrow> Some e
                | None \<Rightarrow> if df = [] then Some IndexError else None)))"
  by (simp add: loop_body_def plot_indicators_def fst_generate_report
      split: sum.split option.split prod.split)

lemma fst_loop_body_world: "fst (loop_body ev asset w) = fst (loop_body ev asset w0)"
  by (simp add: fst_loop_body)

lemma console_loop_body_prefix:
  "\<exists>ls. console (snd (loop_body ev asset w)) = console w @ ls"
proof (cases "fetch_func ev asset")
  case (Inl e)
  then show ?thesis by (simp add: loop_body_def)
next
  case (Inr fetched)
  show ?thesis
  proof (cases "with_indicators fetched")
    case (Inl e)
    with Inr show ?thesis by (simp add: loop_body_def)
  next
    case df: (Inr df)
    obtain r w1 where p: "plot_indicators ev df asset w = (r, w1)" by (cases "plot_indicators ev df asset w")
    then have c1: "console w1 = console w"
      using console_plot_indicators [of ev df asset w] by simp
    show ?thesis
    proof (cases r)
      case (Some e)
      with Inr df p c1 show ?thesis by (simp add: loop_body_def)
    next
      case None
      show ?thesis
      proof (cases "df = []")
        case True
        with None Inr df p c1 show ?thesis by (simp add: loop_body_def generate_report_def)
      next
        case False
        from generate_report_rows(2) [OF False, of ev asset w1] c1 None Inr df p
        show ?thesis by (auto simp: loop_body_def)
      qed
    qed
  qed
qed

lemma console_process_asset_prefix:
  "\<exists>ls. console (process_asset ev asset w) = console w @ ls"
proof -
  obtain r w1 where b: "loop_body ev asset w = (r, w1)" by (cases "loop_body ev asset w")
  obtain ls where "console w1 = console w @ ls"
    using console_loop_body_prefix [of ev asset w] b by auto
  then show ?thesis using b by (cases r) (simp_all add: process_asset_def)
qed

lemma console_main_loop_prefix:
  "\<exists>ls. console (main_loop ev as w) = console w @ ls"
proof (induction as arbitrary: w)
  case Nil
  then show ?case by simp
next
  case (Cons a as)
  obtain l1 where "console (process_asset ev a w) = console w @ l1"
    using console_process_asset_prefix by blast
  moreover obtain l2 where "console (main_loop ev as (process_asset ev a w))
      = console (process_asset ev a w) @ l2"
    using Cons.IH by blast
  ultimately show ?case by simp
qed

lemma process_asset_logs_error:
  assumes "fst (loop_body ev asset w) = Some e"
  shows "error_line asset e \<in> set (console (process_asset ev asset w))"
proof -
  obtain w1 where "loop_body ev asset w = (Some e, w1)"
    using assms by (cases "loop_body ev asset w") simp
  then show ?thesis by (simp add: process_asset_def)
qed

lemma process_asset_reports:
  assumes "fetch_func ev asset = Inr fetched" "with_indicators fetched = Inr df"
    "df \<noteq> []" "savefig ev asset df = None"
  shows "report_text asset (last df) \<in> set (console (process_asset ev asset w))"
proof -
  obtain w1 where p: "plot_indicators ev df asset w = (None, w1)"
    using assms(4) by (simp add: plot_indicators_def)
  have b: "loop_body ev asset w = generate_report ev asset df w1"
    using assms(1,2) p by (simp add: loop_body_def)
  obtain w2 where g: "generate_report ev asset df w1 = (None, w2)"
    using generate_report_rows(1) [OF assms(3), of ev asset w1]
    by (cases "generate_report ev asset df w1") simp
  obtain l where "console w2 = console w1 @ [report_text asset (last df), l]"
    using generate_report_rows(2) [OF assms(3), of ev asset w1] g by auto
  then show ?thesis using b g by (simp add: process_asset_def)
qed

lemma main_loop_keeps:
  "l \<in> set (console w) \<Longrightarrow> l \<in> set (console (main_loop ev as w))"
  using console_main_loop_prefix [of ev as w] by auto

section \<open>Evaluated sample runs\<close>

lemma with_indicators_one_day: "with_indicators one_day_frame = Inr [one_day_row]"
  by (simp add: with_indicators_def one_day_frame_def one_day_row_def calculate_macd_def
      ewm_mean_def calculate_rsi_def simulate_mvrv_def rolling_mean_def window_mean_def
      window_at_def clip_lower_def clip_upper_def fl_sub_def fl_gt_def Let_def)

lemma report_text_one_day: "report_text ''Gold'' one_day_row = one_day_report"
  by (simp add: report_text_def one_day_row_def one_day_report_def header_line_def
      price_line_def rsi_line_def macd_line_def mvrv_line_def show_date_def sample_date_def
      zero_pad_def show_nat.simps digit_char_def round_half_even_def rsi_zone_def
      macd_trend_def mvrv_valuation_def fl_gt_def)

section \<open>Reports on short frames\<close>

lemma fl_div_NaN_right [simp]: "fl_div a NaN = NaN"
  by (cases a) simp_all

lemma simulate_mvrv_early:
  assumes "i < length prices" "Suc i < 30"
  shows "simulate_mvrv prices ! i = NaN"
  using assms by (simp add: simulate_mvrv_def Let_def rolling_mean_early)

lemma with_indicators_rows:
  "\<exists>rows. with_indicators df = Inr rows \<and> length rows = length df
      \<and> (\<forall>i<length df. RSI (rows ! i) = calculate_rsi (map snd df) 14 ! i
                        \<and> MVRV (rows ! i) = simulate_mvrv (map snd df) ! i)"
proof -
  obtain macd signal where "calculate_macd (map snd df) 12 26 9 = Inr (macd, signal)"
    using calculate_macd_Inr [of 12 26 9 "map snd df"] by auto
  then show ?thesis by (simp add: with_indicators_def Let_def)
qed

lemma short_frame_latest_mvrv:
  assumes "fetched \<noteq> []" "length fetched < 30"
  shows "\<exists>rows. with_indicators fetched = Inr rows \<and> rows \<noteq> [] \<and> MVRV (last rows) = NaN"
proof -
  obtain rows where r: "with_indicators fetched = Inr rows" "length rows = length fetched"
    "\<forall>i<length fetched. MVRV (rows ! i) = simulate_mvrv (map snd fetched) ! i"
    using with_indicators_rows [of fetched] by blast
  from assms(1) r(2) have ne: "rows \<noteq> []" by auto
  let ?k = "length fetched - 1"
  have k: "?k < length fetched" using assms(1) by simp
  have "MVRV (last rows) = MVRV (rows ! ?k)" using ne r(2) by (simp add: last_conv_nth)
  also have "\<dots> = simulate_mvrv (map snd fetched) ! ?k" using r(3) k by blast
  also have "\<dots> = NaN" using k assms(2) by (intro simulate_mvrv_early) simp_all
  finally show ?thesis using r(1) ne by blast
qed

lemma outbox_generate_report:
  assumes "df \<noteq> []" "sendmail ev (asset @ '' Daily Valuation'') (report_text asset (last df)) = None"
  shows "(asset @ '' Daily Valuation'', report_text asset (last df))
           \<in> set (outbox (snd (generate_report ev asset df w)))"
  using assms by (simp add: generate_report_def Let_def send_alert_def print_def)

lemma on_grid_pos: "on_grid k xs \<Longrightarrow> \<forall>x\<in>set xs. 0 < x"
  by (simp add: on_grid_def)

lemma rsi_avg_gain_early:
  assumes "i < length prices" "i < w"
  shows "rsi_avg_gain prices w ! i = NaN"
proof (cases prices)
  case Nil
  with assms(1) show ?thesis by simp
next
  case (Cons p rest)
  have "map prep (map (clip_lower 0) (diff prices)) =
          NaN # map prep (map (clip_lower 0) (map2 (\<lambda>prev cur. fl_sub cur prev) (p # rest) rest))"
    using Cons by (simp add: clip_lower_def)
  then show ?thesis
    using assms by (simp add: rsi_avg_gain_def rolling_mean_nth window_mean_NaN_Cons_early)
qed

lemma calculate_rsi_early:
  assumes "i < length prices" "i < w"
  shows "calculate_rsi prices w ! i = NaN"
  using assms rsi_avg_gain_early [OF assms]
  by (simp add: calculate_rsi_via_avgs fl_sub_def)

lemma macd_line_nan_macd:
  assumes "MACD latest = NaN"
  shows "macd_line latest
           = ''MACD: nan, Signal: '' @ fmt2f (Signal latest) @ '' '' @ arrow @ '' Bearish''"
  using assms by (cases "Signal latest") (simp_all add: macd_line_def macd_trend_def fl_gt_def)

lemma macd_line_nan_signal:
  assumes "Signal latest = NaN"
  shows "macd_line latest
           = ''MACD: '' @ fmt2f (MACD latest) @ '', Signal: nan '' @ arrow @ '' Bearish''"
  using assms by (cases "MACD latest") (simp_all add: macd_line_def macd_trend_def fl_gt_def)

section \<open>The claims\<close>

text \<open>
  C1, as amended: \<open>generate_report\<close> raises only on a frame without rows, and then
  IndexError. On every frame with at least one row it raises nothing, prints the report
  and hands it to \<open>send_alert\<close> (which delivers it when the mail transport accepts
  it), also when the latest RSI, MACD, Signal or MVRV is undefined: an undefined value
  is rendered as \<open>nan\<close> and classified by the else branch (Neutral/Bullish, Bearish,
  Fairly Valued). In particular a fetched series of 1 to 29 prices has an undefined
  latest MVRV and is reported so.
\<close>

theorem C1_report_despite_undefined:
  "generate_report ev asset [] w = (Some IndexError, w)
   \<and> (df \<noteq> [] \<longrightarrow>
         fst (generate_report ev asset df w) = None
         \<and> report_text asset (last df) \<in> set (console (snd (generate_report ev asset df w)))
         \<and> (sendmail ev (asset @ '' Daily Valuation'') (report_text asset (last df)) = None
              \<longrightarrow> (asset @ '' Daily Valuation'', report_text asset (last df))
                     \<in> set (outbox (snd (generate_report ev asset df w)))))
   \<and> (RSI latest = NaN \<longrightarrow> rsi_line latest = ''RSI: nan '' @ arrow @ '' Neutral/Bullish'')
   \<and> (MACD latest = NaN \<or> Signal latest = NaN
         \<longrightarrow> macd_trend (MACD latest) (Signal latest) = ''Bearish'')
   \<and> (MACD latest = NaN
         \<longrightarrow> macd_line latest
               = ''MACD: nan, Signal: '' @ fmt2f (Signal latest) @ '' '' @ arrow @ '' Bearish'')
   \<and> (Signal latest = NaN
         \<longrightarrow> macd_line latest
               = ''MACD: '' @ fmt2f (MACD latest) @ '', Signal: nan '' @ arrow @ '' Bearish'')
   \<and> (MVRV latest = NaN \<longrightarrow> mvrv_line latest = ''MVRV: nan '' @ arrow @ '' Fairly Valued'')
   \<and> (fetched \<noteq> [] \<and> length fetched < 30 \<longrightarrow>
         (\<exists>rows. with_indicators fetched = Inr rows \<and> rows \<noteq> [] \<and> MVRV (last rows) = NaN))"
proof (intro conjI impI)
  show "generate_report ev asset [] w = (Some IndexError, w)"
    by (rule generate_report_empty)
  show "fst (generate_report ev asset df w) = None" if "df \<noteq> []"
    using that by (rule generate_report_rows(1))
  show "report_text asset (last df) \<in> set (console (snd (generate_report ev asset df w)))"
    if "df \<noteq> []"
    using generate_report_rows(2) [OF that, of ev asset w] by auto
  show "(asset @ '' Daily Valuation'', report_text asset (last df))
          \<in> set (outbox (snd (generate_report ev asset df w)))"
    if "df \<noteq> []" "sendmail ev (asset @ '' Daily Valuation'') (report_text asset (last df)) = None"
    using that by (rule outbox_generate_report)
  show "rsi_line latest = ''RSI: nan '' @ arrow @ '' Neutral/Bullish''" if "RSI latest = NaN"
    using that by (simp add: rsi_line_def rsi_zone_def)
  show "macd_trend (MACD latest) (Signal latest) = ''Bearish''"
    if "MACD latest = NaN \<or> Signal latest = NaN"
    using that by (cases "MACD latest"; cases "Signal latest") (simp_all add: macd_trend_def fl_gt_def)
  show "macd_line latest
          = ''MACD: nan, Signal: '' @ fmt2f (Signal latest) @ '' '' @ arrow @ '' Bearish''"
    if "MACD latest = NaN"
    using that by (rule macd_line_nan_macd)
  show "macd_line latest
          = ''MACD: '' @ fmt2f (MACD latest) @ '', Signal: nan '' @ arrow @ '' Bearish''"
    if "Signal latest = NaN"
    using that by (rule macd_line_nan_signal)
  show "mvrv_line latest = ''MVRV: nan '' @ arrow @ '' Fairly Valued''" if "MVRV latest = NaN"
    using that by (simp add: mvrv_line_def mvrv_valuation_def)
  show "\<exists>rows. with_indicators fetched = Inr rows \<and> rows \<noteq> [] \<and> MVRV (last rows) = NaN"
    if "fetched \<noteq> [] \<and> length fetched < 30"
    using that short_frame_latest_mvrv by blast
qed

theorem C1_report_despite_undefined_witness:
  "fst (generate_report quiet_env ''Gold'' [one_day_row] empty_world) = None
   \<and> report_text ''Gold'' one_day_row
       \<in> set (console (snd (generate_report quiet_env ''Gold'' [one_day_row] empty_world)))
   \<and> (''Gold Daily Valuation'', report_text ''Gold'' one_day_row)
       \<in> set (outbox (snd (generate_report quiet_env ''Gold'' [one_day_row] empty_world)))
   \<and> rsi_line one_day_row = ''RSI: nan '' @ arrow @ '' Neutral/Bullish''
   \<and> macd_trend (MACD (one_day_row\<lparr>MACD := NaN\<rparr>)) (Signal (one_day_row\<lparr>MACD := NaN\<rparr>)) = ''Bearish''
   \<and> macd_line (one_day_row\<lparr>MACD := NaN\<rparr>) = ''MACD: nan, Signal: 0.00 '' @ arrow @ '' Bearish''
   \<and> macd_line (one_day_row\<lparr>Signal := NaN\<rparr>) = ''MACD: 0.00, Signal: nan '' @ arrow @ '' Bearish''
   \<and> mvrv_line one_day_row = ''MVRV: nan '' @ arrow @ '' Fairly Valued''
   \<and> (\<exists>rows. with_indicators one_day_frame = Inr rows \<and> rows \<noteq> [] \<and> MVRV (last rows) = NaN)"
proof -
  have ne: "[one_day_row] \<noteq> []" by simp
  have mail: "sendmail quiet_env (''Gold'' @ '' Daily Valuation'') (report_text ''Gold'' (last [one_day_row])) = None"
    by (simp add: quiet_env_def)
  have nan: "RSI one_day_row = NaN" "MVRV one_day_row = NaN"
    by (simp_all add: one_day_row_def)
  have nan2: "MACD (one_day_row\<lparr>MACD := NaN\<rparr>) = NaN" "Signal (one_day_row\<lparr>Signal := NaN\<rparr>) = NaN"
    by simp_all
  have zero: "fmt2f (Signal (one_day_row\<lparr>MACD := NaN\<rparr>)) = ''0.00''"
    "fmt2f (MACD (one_day_row\<lparr>Signal := NaN\<rparr>)) = ''0.00''"
    by (simp_all add: one_day_row_def show_nat.simps digit_char_def round_half_even_def)
  have short: "one_day_frame \<noteq> [] \<and> length one_day_frame < 30"
    by (simp add: one_day_frame_def)
  from C1_report_despite_undefined [of quiet_env "''Gold''" empty_world "[one_day_row]" one_day_row one_day_frame]
    C1_report_despite_undefined [of quiet_env "''Gold''" empty_world "[one_day_row]" "one_day_row\<lparr>MACD := NaN\<rparr>" one_day_frame]
    C1_report_despite_undefined [of quiet_env "''Gold''" empty_world "[one_day_row]" "one_day_row\<lparr>Signal := NaN\<rparr>" one_day_frame]
    ne mail nan nan2 zero short
  show ?thesis by simp
qed

text \<open>
  The claim as stated fails on a series of one price: the latest RSI and MVRV are NaN, and
  the report is printed and mailed with \<open>nan\<close> in it; nothing is raised.
\<close>

theorem C1_counterexample:
  "with_indicators one_day_frame = Inr [one_day_row]
   \<and> RSI (last [one_day_row]) = NaN \<and> MVRV (last [one_day_row]) = NaN
   \<and> generate_report quiet_env ''Gold'' [one_day_row] empty_world
       = (None, \<lparr>console = [one_day_report, check_mark @ '' Gmail alert sent.''],
                 charts = [],
                 outbox = [(''Gold Daily Valuation'', one_day_report)]\<rparr>)"
  by (simp add: with_indicators_one_day report_text_one_day generate_report_def send_alert_def print_def quiet_env_def empty_world_def)
   (simp add: one_day_row_def)

text \<open>
  C2: for every price series (of any length, so also of length at least 1), the RSI
  series, both series returned by \<open>calculate_macd\<close> (called with its default spans,
  where it returns normally) and the MVRV series have exactly the length of the input.
\<close>

theorem C2_same_length:
  "length (calculate_rsi prices 14) = length prices
   \<and> (\<exists>macd signal_line. calculate_macd prices 12 26 9 = Inr (macd, signal_line)
         \<and> length macd = length prices \<and> length signal_line = length prices)
   \<and> length (simulate_mvrv prices) = length prices"
  using calculate_macd_Inr [of 12 26 9 prices] by simp

text \<open>
  C3: for every series of finite prices (positive or not) and every window, each entry of
  the RSI series that is not NaN is a finite number between 0 and 100. The window means
  are the exact ones; the rounding of the program's running sums is not modelled.
\<close>

theorem C3_rsi_bounded:
  assumes "i < length xs" "calculate_rsi (map Fin xs) w ! i \<noteq> NaN"
  shows "\<exists>r. calculate_rsi (map Fin xs) w ! i = Fin r \<and> 0 \<le> r \<and> r \<le> 100"
proof -
  let ?win = "window_at w (i - 1) (deltas xs)"
  have eq: "calculate_rsi (map Fin xs) w ! i =
           (if i < w \<or> w = 0 then NaN
            else rsi_of (mean (map gain_of ?win)) (mean (map loss_of ?win)))"
    using assms(1) by (rule calculate_rsi_nth)
  with assms(2) have late: "\<not> (i < w \<or> w = 0)" by (auto split: if_splits)
  with eq have eq': "calculate_rsi (map Fin xs) w ! i =
      rsi_of (mean (map gain_of ?win)) (mean (map loss_of ?win))" by simp
  with assms(2) have "rsi_of (mean (map gain_of ?win)) (mean (map loss_of ?win)) \<noteq> NaN"
    by simp
  from rsi_of_bounds [OF mean_gain_nonneg mean_loss_nonneg this] eq'
  show ?thesis by simp
qed

theorem C3_rsi_bounded_witness:
  "calculate_rsi (map Fin [100, 102, 101, 105, 103, 106, 108, 107, 110, 109, 111, 115, 113, 116, 118]) 14 ! 14
     = Fin (625 / 8)
   \<and> (\<exists>r. calculate_rsi (map Fin [100, 102, 101, 105, 103, 106, 108, 107, 110, 109, 111, 115, 113, 116, 118]) 14 ! 14
          = Fin r \<and> 0 \<le> r \<and> r \<le> 100)"
proof -
  let ?xs = "[100, 102, 101, 105, 103, 106, 108, 107, 110, 109, 111, 115, 113, 116, 118] :: real list"
  have len: "14 < length ?xs" by simp
  have val: "calculate_rsi (map Fin ?xs) 14 ! 14 = Fin (625 / 8)"
    by code_simp
  then have defined: "calculate_rsi (map Fin ?xs) 14 ! 14 \<noteq> NaN" by simp
  from C3_rsi_bounded [OF len defined] val show ?thesis by blast
qed

text \<open>
  C4, as amended: in every price series the RSI (window 14) is undefined at every index
  \<open>j < 14\<close> and the MVRV at every index with fewer than 30 prices ending there
  (\<open>j + 1 < 30\<close>). For a series of positive prices on a binary grid (whole multiples of
  \<open>2^-k\<close> with \<open>k \<le> 40\<close>, fewer than \<open>2^40\<close> steps each, where the window sums
  are computed without rounding, overflow or underflow) and every index \<open>i\<close> of it:
  the RSI is undefined exactly when \<open>i < 14\<close> or the fourteen price differences ending
  at \<open>i\<close> are all zero; the MVRV is undefined exactly when \<open>i + 1 < 30\<close>; the MACD
  and the Signal are finite numbers at \<open>i\<close>. Off the grid, rounding, overflow or
  underflow in the program's running sums can leave further entries undefined.
\<close>

theorem C4_definedness:
  assumes "k \<le> 40" "on_grid k xs" "i < length xs"
  shows "(calculate_rsi (map Fin xs) 14 ! i = NaN
            \<longleftrightarrow> i < 14 \<or> (\<forall>j. i - 14 \<le> j \<and> j < i \<longrightarrow> xs ! Suc j = xs ! j))
       \<and> (simulate_mvrv (map Fin xs) ! i = NaN \<longleftrightarrow> Suc i < 30)
       \<and> (\<exists>macd signal m s. calculate_macd (map Fin xs) 12 26 9 = Inr (macd, signal)
             \<and> macd ! i = Fin m \<and> signal ! i = Fin s)
       \<and> (\<forall>j. j < length prices \<and> j < 14 \<longrightarrow> calculate_rsi prices 14 ! j = NaN)
       \<and> (\<forall>j. j < length prices \<and> Suc j < 30 \<longrightarrow> simulate_mvrv prices ! j = NaN)"
proof (intro conjI allI impI)
  have pos: "\<forall>x\<in>set xs. 0 < x" using assms(2) by (rule on_grid_pos)
  show "calculate_rsi (map Fin xs) 14 ! i = NaN
          \<longleftrightarrow> i < 14 \<or> (\<forall>j. i - 14 \<le> j \<and> j < i \<longrightarrow> xs ! Suc j = xs ! j)"
    using rsi_NaN_iff [OF assms(3), of 14] by simp
  show "simulate_mvrv (map Fin xs) ! i = NaN \<longleftrightarrow> Suc i < 30"
    using mvrv_defined_iff [OF pos assms(3)] by simp
  obtain ms ss where m: "calculate_macd (map Fin xs) 12 26 9 = Inr (map Fin ms, map Fin ss)"
      "length ms = length xs" "length ss = length xs"
    using calculate_macd_all_Fin by blast
  with assms(3) have "map Fin ms ! i = Fin (ms ! i)" "map Fin ss ! i = Fin (ss ! i)" by simp_all
  with m(1) show "\<exists>macd signal m s. calculate_macd (map Fin xs) 12 26 9 = Inr (macd, signal)
             \<and> macd ! i = Fin m \<and> signal ! i = Fin s" by blast
  show "calculate_rsi prices 14 ! j = NaN" if "j < length prices \<and> j < 14" for j
    using that by (simp add: calculate_rsi_early)
  show "simulate_mvrv prices ! j = NaN" if "j < length prices \<and> Suc j < 30" for j
    using that by (simp add: simulate_mvrv_early)
qed

theorem C4_definedness_witness:
  "calculate_rsi (map Fin sample_prices) 14 ! 13 = NaN
   \<and> calculate_rsi (map Fin sample_prices) 14 ! 29 \<noteq> NaN
   \<and> simulate_mvrv (map Fin sample_prices) ! 28 = NaN
   \<and> simulate_mvrv (map Fin sample_prices) ! 29 \<noteq> NaN
   \<and> (\<exists>macd signal m s. calculate_macd (map Fin sample_prices) 12 26 9 = Inr (macd, signal)
         \<and> macd ! 29 = Fin m \<and> signal ! 29 = Fin s)
   \<and> calculate_rsi (map Fin quarter_prices) 14 ! 2 = NaN
   \<and> simulate_mvrv (map Fin quarter_prices) ! 2 = NaN
   \<and> (\<exists>macd signal m s. calculate_macd (map Fin quarter_prices) 12 26 9 = Inr (macd, signal)
         \<and> macd ! 2 = Fin m \<and> signal ! 2 = Fin s)
   \<and> calculate_rsi [Fin 1, NaN, PInf] 14 ! 2 = NaN
   \<and> simulate_mvrv [Fin 1, NaN, PInf] ! 2 = NaN"
proof -
  have k0: "(0::nat) \<le> 40" and k2: "(2::nat) \<le> 40" by simp_all
  have grid: "on_grid 0 sample_prices" by (simp add: on_grid_def sample_prices_def)
  have grid2: "on_grid 2 quarter_prices" by (simp add: on_grid_def quarter_prices_def)
  have i13: "13 < length sample_prices" and i28: "28 < length sample_prices"
    and i29: "29 < length sample_prices"
    by (simp_all add: sample_prices_def)
  have q2: "2 < length quarter_prices" by (simp add: quarter_prices_def)
  have moving: "\<not> (\<forall>j. 29 - 14 \<le> j \<and> j < 29 \<longrightarrow> sample_prices ! Suc j = sample_prices ! j)"
  proof
    assume "\<forall>j. 29 - 14 \<le> j \<and> j < 29 \<longrightarrow> sample_prices ! Suc j = sample_prices ! j"
    from this [rule_format, of 15] have "sample_prices ! Suc 15 = sample_prices ! 15" by simp
    then show False by (simp add: sample_prices_def)
  qed
  have any: "(2::nat) < length [Fin 1, NaN, PInf] \<and> (2::nat) < 14"
    "(2::nat) < length [Fin 1, NaN, PInf] \<and> Suc 2 < 30" by simp_all
  from C4_definedness [OF k0 grid i13, of "[Fin 1, NaN, PInf]"]
    C4_definedness [OF k0 grid i28, of "[Fin 1, NaN, PInf]"]
    C4_definedness [OF k0 grid i29, of "[Fin 1, NaN, PInf]"]
    C4_definedness [OF k2 grid2 q2, of "[Fin 1, NaN, PInf]"]
    moving any
  show ?thesis by simp
qed

text \<open>
  The claim as stated fails on fifteen equal prices: index 14 has fourteen prior
  differences, and the RSI there is NaN.
\<close>

theorem C4_counterexample:
  "14 < length (replicate 15 (Fin 100))
   \<and> \<not> ((calculate_rsi (replicate 15 (Fin 100)) 14 ! 14 = NaN) = ((14::nat) < 14))"
proof -
  have "calculate_rsi (replicate 15 (Fin 100)) 14 ! 14 = NaN" by code_simp
  then show ?thesis by simp
qed

text \<open>
  C5: on a non-empty series the short (span 12) and the long (span 26) exponential
  averages of \<open>calculate_macd\<close> both start with the first price; on a constant series
  of any length the MACD and the Signal returned are 0 at every index.
\<close>

theorem C5_macd_seed_and_constant:
  "(\<exists>ema_short ema_long. ewm_mean 12 (p # ps) = Inr ema_short \<and> ewm_mean 26 (p # ps) = Inr ema_long
       \<and> ema_short ! 0 = p \<and> ema_long ! 0 = p)
   \<and> calculate_macd (replicate n (Fin c)) 12 26 9 = Inr (replicate n (Fin 0), replicate n (Fin 0))"
proof
  show "\<exists>ema_short ema_long. ewm_mean 12 (p # ps) = Inr ema_short \<and> ewm_mean 26 (p # ps) = Inr ema_long
       \<and> ema_short ! 0 = p \<and> ema_long ! 0 = p"
    by (simp add: ewm_mean_def)
  have "map2 fl_sub (replicate n (Fin c)) (replicate n (Fin c)) = replicate n (Fin 0)"
    by (induction n) (simp_all add: fl_sub_def)
  then show "calculate_macd (replicate n (Fin c)) 12 26 9 = Inr (replicate n (Fin 0), replicate n (Fin 0))"
    by (simp add: calculate_macd_def ewm_mean_const fl_sub_def Let_def)
qed

text \<open>
  C6: on a constant series of a positive price the MVRV is 1 at every index where it is
  defined, which are the indices from 29 on; before them it is NaN.
\<close>

theorem C6_constant_mvrv:
  assumes "0 < c" "i < n"
  shows "simulate_mvrv (replicate n (Fin c)) ! i = (if Suc i < 30 then NaN else Fin 1)"
proof -
  have "simulate_mvrv (map Fin (replicate n c)) ! i =
      (if Suc i < 30 then NaN else fl_div (Fin (replicate n c ! i)) (Fin (mean (window_at 30 i (replicate n c)))))"
    using assms(2) by (intro simulate_mvrv_nth) simp
  then show ?thesis
    using assms by (simp add: window_at_replicate mean_replicate)
qed

theorem C6_constant_mvrv_witness:
  "simulate_mvrv (replicate 30 (Fin 2)) ! 28 = NaN \<and> simulate_mvrv (replicate 30 (Fin 2)) ! 29 = Fin 1"
proof -
  have c: "(0::real) < 2" by simp
  have i: "(28::nat) < 30" "(29::nat) < 30" by simp_all
  from C6_constant_mvrv [OF c i(1)] C6_constant_mvrv [OF c i(2)] show ?thesis by simp
qed

text \<open>
  C7: the three classifications of the report break ties as follows. An RSI of exactly 30
  is Neutral/Bullish, and Oversold is given exactly when RSI < 30; a MACD equal to the
  Signal is Bearish, and Bullish is given exactly when MACD > Signal; an MVRV of exactly 1
  is Fairly Valued, and Undervalued is given exactly when MVRV < 1. The lines of the
  report carry these labels.
\<close>

theorem C7_tie_breaks:
  "rsi_zone (Fin 30) = ''Neutral/Bullish''
   \<and> (rsi_zone v = ''Oversold'') = fl_lt v (Fin 30)
   \<and> macd_trend (Fin m) (Fin m) = ''Bearish''
   \<and> (macd_trend a b = ''Bullish'') = fl_gt a b
   \<and> mvrv_valuation (Fin 1) = ''Fairly Valued''
   \<and> (mvrv_valuation v = ''Undervalued'') = fl_lt v (Fin 1)
   \<and> rsi_line (latest\<lparr>RSI := Fin 30\<rparr>) = ''RSI: 30.00 '' @ arrow @ '' Neutral/Bullish''
   \<and> macd_line (latest\<lparr>MACD := Fin m, Signal := Fin m\<rparr>)
       = ''MACD: '' @ fmt2f (Fin m) @ '', Signal: '' @ fmt2f (Fin m) @ '' '' @ arrow @ '' Bearish''
   \<and> mvrv_line (latest\<lparr>MVRV := Fin 1\<rparr>) = ''MVRV: 1.00 '' @ arrow @ '' Fairly Valued''"
  by (simp add: rsi_zone_def macd_trend_def mvrv_valuation_def fl_gt_def rsi_line_def
      macd_line_def mvrv_line_def show_nat.simps digit_char_def round_half_even_def)

text \<open>
  C8: in a run over any list of assets, from any starting state, every asset of the list
  whose try body raises has its error line on the console at the end, and every asset
  whose fetch returns a frame with rows and whose chart is written has its report on the
  console at the end, whatever happens to the other assets.
\<close>

theorem C8_asset_isolation:
  assumes "asset \<in> set as"
  shows "(\<forall>e. fst (loop_body ev asset w0) = Some e
              \<longrightarrow> error_line asset e \<in> set (console (main_loop ev as w)))
       \<and> (\<forall>fetched df. fetch_func ev asset = Inr fetched \<and> with_indicators fetched = Inr df
              \<and> df \<noteq> [] \<and> savefig ev asset df = None
              \<longrightarrow> report_text asset (last df) \<in> set (console (main_loop ev as w)))"
  using assms
proof (induction as arbitrary: w)
  case Nil
  then show ?case by simp
next
  case (Cons a as)
  show ?case
  proof (cases "asset = a")
    case True
    have "\<And>e. fst (loop_body ev asset w0) = Some e
            \<Longrightarrow> error_line asset e \<in> set (console (process_asset ev a w))"
      using True process_asset_logs_error [of ev asset w] fst_loop_body_world [of ev asset w w0]
      by simp
    moreover have "\<And>fetched df. fetch_func ev asset = Inr fetched \<Longrightarrow> with_indicators fetched = Inr df
              \<Longrightarrow> df \<noteq> [] \<Longrightarrow> savefig ev asset df = None
              \<Longrightarrow> report_text asset (last df) \<in> set (console (process_asset ev a w))"
      using True process_asset_reports by simp
    ultimately show ?thesis
      using main_loop_keeps [of _ "process_asset ev a w" ev as] by auto
  next
    case False
    with Cons.prems have "asset \<in> set as" by simp
    from Cons.IH [OF this, of "process_asset ev a w"] show ?thesis
      unfolding main_loop.simps by blast
  qed
qed

theorem C8_asset_isolation_witness:
  "error_line ''Gold'' (Error ''connection refused'') \<in> set (console (main gold_down_env))
   \<and> report_text ''Bitcoin'' one_day_row \<in> set (console (main gold_down_env))
   \<and> report_text ''Ethereum'' one_day_row \<in> set (console (main gold_down_env))"
proof -
  have g: "''Gold'' \<in> set assets" and b: "''Bitcoin'' \<in> set assets"
    and e: "''Ethereum'' \<in> set assets"
    by (simp_all add: assets_def)
  have gold: "fst (loop_body gold_down_env ''Gold'' empty_world) = Some (Error ''connection refused'')"
    by (simp add: loop_body_def gold_down_env_def)
  have other: "fetch_func gold_down_env ''Bitcoin'' = Inr one_day_frame"
    "fetch_func gold_down_env ''Ethereum'' = Inr one_day_frame"
    "savefig gold_down_env ''Bitcoin'' [one_day_row] = None"
    "savefig gold_down_env ''Ethereum'' [one_day_row] = None"
    by (simp_all add: gold_down_env_def)
  from C8_asset_isolation [OF g, of gold_down_env empty_world empty_world]
    C8_asset_isolation [OF b, of gold_down_env empty_world empty_world]
    C8_asset_isolation [OF e, of gold_down_env empty_world empty_world]
    gold other with_indicators_one_day
  show ?thesis unfolding main_def by fastforce
qed

text \<open>
  C10: at an index where the average loss of the window is 0, the RSI is exactly 100 when
  the average gain is positive, and NaN when the average gain is 0 as well.
\<close>

theorem C10_rsi_zero_loss:
  assumes "i < length prices" "rsi_avg_loss prices w ! i = Fin 0"
  shows "(\<forall>g. rsi_avg_gain prices w ! i = Fin g \<and> 0 < g \<longrightarrow> calculate_rsi prices w ! i = Fin 100)
       \<and> (rsi_avg_gain prices w ! i = Fin 0 \<longrightarrow> calculate_rsi prices w ! i = NaN)"
  using assms by (simp add: calculate_rsi_via_avgs fl_sub_def)

theorem C10_rsi_zero_loss_witness:
  "calculate_rsi rising15 14 ! 14 = Fin 100 \<and> calculate_rsi const15 14 ! 14 = NaN"
proof -
  have r: "14 < length rising15" "rsi_avg_loss rising15 14 ! 14 = Fin 0"
    "rsi_avg_gain rising15 14 ! 14 = Fin 1"
    by (simp_all add: rising15_def rsi_avg_loss_def rsi_avg_gain_def rolling_mean_def
        window_mean_def window_at_def fl_sum_def clip_lower_def clip_upper_def fl_sub_def
        fl_gt_def Let_def)
  have c: "14 < length const15" "rsi_avg_loss const15 14 ! 14 = Fin 0"
    "rsi_avg_gain const15 14 ! 14 = Fin 0"
    by code_simp+
  from C10_rsi_zero_loss [OF r(1,2)] C10_rsi_zero_loss [OF c(1,2)] r(3) c(3)
  show ?thesis by simp
qed

end
